theory Spec2Isabelle
  imports Complex_Main "HOL-Library.Product_Lexorder" "HOL-Library.Multiset"
begin

section \<open>Data model (database/schema.sql)\<close>

text \<open>
  The application keeps all state in one SQLite database. Each table is a list of rows
  (a record per row, one field per column). Timestamps (\<open>DATETIME\<close> columns,
  \<open>CURRENT_TIMESTAMP\<close>, \<open>new Date().toISOString()\<close>) are seconds since the epoch in
  UTC; calendar dates (\<open>DATE\<close> columns, \<open>date('now')\<close>, \<open>date(completed_at)\<close>,
  \<open>toISOString().split('T')[0]\<close>) are day numbers since the epoch, so the day before
  \<open>d\<close> is \<open>d - 1\<close>. Nullable columns are options. The flag columns (\<open>is_completed\<close>,
  \<open>reminder_enabled\<close>, \<open>motivation_enabled\<close>) are \<open>INTEGER\<close> columns that default to 0 or 1
  and that every statement of the application writes as 0 or 1; they are booleans here,
  so that the JavaScript truthiness test, the SQL test \<open>= 1\<close> and \<open>SUM(is_completed)\<close>
  (the number of set flags) all read the same flag.
\<close>

type_synonym timestamp = int
type_synonym day = int

definition date_of :: "timestamp \<Rightarrow> day" where
  "date_of ts = ts div 86400"

record user =
  u_id :: nat
  u_username :: string
  u_password_hash :: string
  u_created_at :: timestamp

record journal_entry =
  je_id :: nat
  je_user_id :: nat
  je_title :: "string option"
  je_content :: string
  je_mood :: "string option"
  je_mood_note :: "string option"
  je_entry_date :: day
  je_created_at :: timestamp
  je_updated_at :: timestamp

record journal_image =
  ji_id :: nat
  ji_journal_id :: nat
  ji_filename :: string
  ji_original_name :: string
  ji_created_at :: timestamp

record goal =
  g_id :: nat
  g_user_id :: nat
  g_title :: string
  g_description :: "string option"
  g_goal_type :: string
  g_target_date :: "day option"
  g_progress :: int
  g_status :: string
  g_created_at :: timestamp
  g_updated_at :: timestamp
  g_completed_at :: "timestamp option"

record goal_milestone =
  gm_id :: nat
  gm_goal_id :: nat
  gm_title :: string
  gm_is_completed :: bool
  gm_completed_at :: "timestamp option"
  gm_created_at :: timestamp

record todo =
  t_id :: nat
  t_user_id :: nat
  t_title :: string
  t_description :: "string option"
  t_priority :: string
  t_scheduled_date :: day
  t_is_completed :: bool
  t_completed_at :: "timestamp option"
  t_created_at :: timestamp
  t_updated_at :: timestamp

record notification_setting =
  ns_id :: nat
  ns_user_id :: nat
  ns_reminder_enabled :: bool
  ns_reminder_times :: string
  ns_motivation_enabled :: bool
  ns_pending_threshold :: int

record activity =
  al_id :: nat
  al_user_id :: nat
  al_activity_type :: string
  al_activity_date :: day
  al_details :: "string option"
  al_created_at :: timestamp

text \<open>
  The database: the eight tables, and for the tables the handlers insert into the
  \<open>sqlite_sequence\<close> counter of \<open>AUTOINCREMENT\<close> (the largest row id handed out so far).
\<close>

record db =
  users :: "user list"
  journal_entries :: "journal_entry list"
  journal_images :: "journal_image list"
  goals :: "goal list"
  goal_milestones :: "goal_milestone list"
  todos :: "todo list"
  notification_settings :: "notification_setting list"
  activity_log :: "activity list"
  seq_journal_entries :: nat
  seq_journal_images :: nat
  seq_goals :: nat
  seq_goal_milestones :: nat
  seq_activity_log :: nat

text \<open>
  \<open>INTEGER PRIMARY KEY AUTOINCREMENT\<close>: the new row id is one more than the largest of
  the ids in the table and the sequence counter.
\<close>

definition next_rowid :: "nat \<Rightarrow> nat list \<Rightarrow> nat" where
  "next_rowid seq ids = Suc (fold max ids seq)"

text \<open>
  What a handler reads besides the request and the database: the clock, and whether the
  database driver raises on the handler's first statement (the ``unexpected failure''
  that every handler's \<open>try/catch\<close> turns into a 500). A handler whose driver raises
  answers from its \<open>catch\<close> block and has written nothing.
\<close>

record env =
  now :: timestamp
  db_throws :: bool

section \<open>Streaks (routes/stats.js)\<close>

text \<open>
  The query inside the loop of \<open>calculateStreak\<close>: is there a journal entry of the user
  dated \<open>d\<close>, or a todo of the user with \<open>is_completed = 1\<close> whose \<open>date(completed_at)\<close> is
  \<open>d\<close>, or an activity-log row of the user dated \<open>d\<close>.
\<close>

definition hasActivity :: "db \<Rightarrow> nat \<Rightarrow> day \<Rightarrow> bool" where
  "hasActivity d userId dateStr \<longleftrightarrow>
     (\<exists>j \<in> set (journal_entries d). je_user_id j = userId \<and> je_entry_date j = dateStr)
   \<or> (\<exists>t \<in> set (todos d). t_user_id t = userId \<and> t_is_completed t
          \<and> map_option date_of (t_completed_at t) = Some dateStr)
   \<or> (\<exists>a \<in> set (activity_log d). al_user_id a = userId \<and> al_activity_date a = dateStr)"





section \<open>HTTP responses\<close>

text \<open>
  A response is a status code and a JSON body. The body constructors are the shapes the
  handlers send: \<open>{error}\<close>, \<open>{errors: [...]}\<close> (the array of express-validator, one entry
  per failed field with its message), \<open>{message}\<close>, \<open>{message, id}\<close>,
  \<open>{message, is_completed}\<close>, and the row data of the read routes.
\<close>

datatype field_error = FieldError (fe_field: string) (fe_msg: string)

datatype body =
    ErrorMsg string
  | ValidationErrors "field_error list"
  | Message string
  | Created string nat
  | Toggled string bool
  | JournalRows "(journal_entry \<times> string list) list"
  | JournalRow journal_entry "journal_image list"
  | GoalRow goal "goal_milestone list"
  | HeatmapData "(day \<times> nat) list"

record response =
  status :: nat
  body :: body

definition try_catch :: "env \<Rightarrow> string \<Rightarrow> (db \<Rightarrow> response \<times> db) \<Rightarrow> db \<Rightarrow> response \<times> db" where
  "try_catch e msg handler d =
     (if db_throws e then (\<lparr>status = 500, body = ErrorMsg msg\<rparr>, d) else handler d)"

text \<open>Every insert into \<open>activity_log\<close>: the date defaults to \<open>date('now')\<close>.\<close>

definition insert_activity :: "env \<Rightarrow> nat \<Rightarrow> string \<Rightarrow> string \<Rightarrow> db \<Rightarrow> db" where
  "insert_activity e userId activity_type details d =
     (let rowid = next_rowid (seq_activity_log d) (map al_id (activity_log d)) in
      d\<lparr>activity_log := activity_log d @
           [\<lparr>al_id = rowid, al_user_id = userId, al_activity_type = activity_type,
             al_activity_date = date_of (now e), al_details = Some details,
             al_created_at = now e\<rparr>],
        seq_activity_log := rowid\<rparr>)"

section \<open>Todos (routes/todos.js)\<close>

text \<open>\<open>PATCH /:id/toggle\<close>\<close>

definition todos_toggle :: "env \<Rightarrow> nat \<Rightarrow> nat \<Rightarrow> db \<Rightarrow> response \<times> db" where
  "todos_toggle e userId todoId =
     try_catch e ''Failed to update todo'' (\<lambda>d.
       case find (\<lambda>t. t_id t = todoId \<and> t_user_id t = userId) (todos d) of
         None \<Rightarrow> (\<lparr>status = 404, body = ErrorMsg ''Todo not found''\<rparr>, d)
       | Some todo \<Rightarrow>
           let newStatus = (if t_is_completed todo then False else True);
               d1 = d\<lparr>todos := map (\<lambda>t. if t_id t = todoId
                       then t\<lparr>t_is_completed := newStatus,
                              t_completed_at := (if newStatus then Some (now e) else None),
                              t_updated_at := now e\<rparr>
                       else t) (todos d)\<rparr>;
               d2 = (if newStatus
                     then insert_activity e userId ''todo_completed''
                            (''Completed: '' @ t_title todo) d1
                     else d1)
           in (\<lparr>status = 200, body = Toggled ''Todo updated'' newStatus\<rparr>, d2))"

text \<open>\<open>DELETE /:id\<close>\<close>

definition todos_delete :: "env \<Rightarrow> nat \<Rightarrow> nat \<Rightarrow> db \<Rightarrow> response \<times> db" where
  "todos_delete e userId todoId =
     try_catch e ''Failed to delete todo'' (\<lambda>d.
       let changes = length (filter (\<lambda>t. t_id t = todoId \<and> t_user_id t = userId) (todos d));
           d1 = d\<lparr>todos := filter (\<lambda>t. \<not> (t_id t = todoId \<and> t_user_id t = userId)) (todos d)\<rparr>
       in if changes = 0 then (\<lparr>status = 404, body = ErrorMsg ''Todo not found''\<rparr>, d1)
          else (\<lparr>status = 200, body = Message ''Todo deleted''\<rparr>, d1))"

section \<open>Request validation (express-validator)\<close>

text \<open>
  A body or query field is absent (\<open>None\<close>) or a string. A date field is the text of a
  calendar day or some other text; \<open>isDate\<close> accepts the former. \<open>trim\<close> strips white
  space at both ends; \<open>notEmpty\<close> fails on an absent field and on the empty string.
\<close>

datatype date_field = ValidDate day | InvalidDate string

fun isDate :: "date_field \<Rightarrow> bool" where
  "isDate (ValidDate _) = True"
| "isDate (InvalidDate _) = False"

definition is_space :: "char \<Rightarrow> bool" where
  "is_space c \<longleftrightarrow> c \<in> set [CHR '' '', CHR 0x09, CHR 0x0A, CHR 0x0B, CHR 0x0C, CHR 0x0D]"

definition trim :: "string \<Rightarrow> string" where
  "trim s = rev (dropWhile is_space (rev (dropWhile is_space s)))"

definition notEmpty :: "string option \<Rightarrow> bool" where
  "notEmpty v \<longleftrightarrow> (case v of None \<Rightarrow> False | Some s \<Rightarrow> s \<noteq> [])"

definition isIn :: "string list \<Rightarrow> string option \<Rightarrow> bool" where
  "isIn allowed v \<longleftrightarrow> (case v of None \<Rightarrow> False | Some s \<Rightarrow> s \<in> set allowed)"

text \<open>\<open>x || null\<close> on an optional string: the empty string is falsy.\<close>

definition or_null :: "string option \<Rightarrow> string option" where
  "or_null v = (case v of None \<Rightarrow> None | Some s \<Rightarrow> if s = [] then None else Some s)"

section \<open>Goals and milestones (routes/goals.js)\<close>

text \<open>\<open>GET /:id\<close>\<close>

definition goals_get :: "env \<Rightarrow> nat \<Rightarrow> nat \<Rightarrow> db \<Rightarrow> response \<times> db" where
  "goals_get e userId goalId =
     try_catch e ''Failed to fetch goal'' (\<lambda>d.
       case find (\<lambda>g. g_id g = goalId \<and> g_user_id g = userId) (goals d) of
         None \<Rightarrow> (\<lparr>status = 404, body = ErrorMsg ''Goal not found''\<rparr>, d)
       | Some goal \<Rightarrow>
           (\<lparr>status = 200,
             body = GoalRow goal (sort_key gm_created_at
                      (filter (\<lambda>m. gm_goal_id m = g_id goal) (goal_milestones d)))\<rparr>, d))"

text \<open>
  \<open>POST /\<close>. The \<open>milestones\<close> field, when present, is an array of objects that may
  carry a title, or not an array.
\<close>

datatype milestones_field = MilestoneArray "string option list" | NotAnArray

record goal_input =
  gi_title :: "string option"
  gi_description :: "string option"
  gi_goal_type :: "string option"
  gi_target_date :: "date_field option"
  gi_milestones :: "milestones_field option"

definition validate_goal :: "goal_input \<Rightarrow> field_error list" where
  "validate_goal b =
     (if notEmpty (gi_title b) then [] else [FieldError ''title'' ''Title is required''])
   @ (if isIn [''short-term'', ''long-term''] (gi_goal_type b) then []
      else [FieldError ''goal_type'' ''Invalid goal type''])
   @ (case gi_target_date b of None \<Rightarrow> []
      | Some x \<Rightarrow> if isDate x then [] else [FieldError ''target_date'' ''Invalid value''])
   @ (case gi_milestones b of Some NotAnArray \<Rightarrow> [FieldError ''milestones'' ''Invalid value'']
      | _ \<Rightarrow> [])"

definition insert_milestone :: "env \<Rightarrow> nat \<Rightarrow> string \<Rightarrow> db \<Rightarrow> db" where
  "insert_milestone e goalId title d =
     (let rowid = next_rowid (seq_goal_milestones d) (map gm_id (goal_milestones d)) in
      d\<lparr>goal_milestones := goal_milestones d @
           [\<lparr>gm_id = rowid, gm_goal_id = goalId, gm_title = title, gm_is_completed = False,
             gm_completed_at = None, gm_created_at = now e\<rparr>],
        seq_goal_milestones := rowid\<rparr>)"

text \<open>The \<open>forEach\<close> over the milestones of the body: untitled and blank ones are skipped.\<close>

fun insert_milestones :: "env \<Rightarrow> nat \<Rightarrow> string option list \<Rightarrow> db \<Rightarrow> db" where
  "insert_milestones e goalId [] d = d"
| "insert_milestones e goalId (m # ms) d =
     insert_milestones e goalId ms
       (case m of None \<Rightarrow> d
        | Some title \<Rightarrow> if title \<noteq> [] \<and> trim title \<noteq> []
                        then insert_milestone e goalId (trim title) d else d)"

definition goals_create :: "env \<Rightarrow> nat \<Rightarrow> goal_input \<Rightarrow> db \<Rightarrow> response \<times> db" where
  "goals_create e userId b d =
     (if validate_goal b \<noteq> [] then (\<lparr>status = 400, body = ValidationErrors (validate_goal b)\<rparr>, d)
      else try_catch e ''Failed to create goal'' (\<lambda>d.
        let goalId = next_rowid (seq_goals d) (map g_id (goals d));
            d1 = d\<lparr>goals := goals d @
                   [\<lparr>g_id = goalId, g_user_id = userId, g_title = trim (the (gi_title b)),
                     g_description = or_null (gi_description b),
                     g_goal_type = the (gi_goal_type b),
                     g_target_date = (case gi_target_date b of Some (ValidDate x) \<Rightarrow> Some x | _ \<Rightarrow> None),
                     g_progress = 0, g_status = ''active'', g_created_at = now e,
                     g_updated_at = now e, g_completed_at = None\<rparr>],
                 seq_goals := goalId\<rparr>;
            d2 = (case gi_milestones b of Some (MilestoneArray ms) \<Rightarrow> insert_milestones e goalId ms d1
                  | _ \<Rightarrow> d1)
        in (\<lparr>status = 201, body = Created ''Goal created'' goalId\<rparr>, d2)) d)"

text \<open>
  \<open>Math.round((completed / total) * 100)\<close> for counts \<open>completed \<le> total\<close>, \<open>total > 0\<close>:
  the nearest integer to the exact quotient, halves rounded up.
\<close>

definition round_percent :: "nat \<Rightarrow> nat \<Rightarrow> int" where
  "round_percent completed total_rows =
     \<lfloor>(of_nat completed / of_nat total_rows) * 100 + 1 / 2 :: rat\<rfloor>"

text \<open>
  \<open>PATCH /:goalId/milestones/:milestoneId/toggle\<close>. The ownership query joins the
  milestone \<open>:milestoneId\<close> with its own goal; the statistics and the progress update use
  the \<open>:goalId\<close> of the path.
\<close>

definition goals_toggle_milestone :: "env \<Rightarrow> nat \<Rightarrow> nat \<Rightarrow> nat \<Rightarrow> db \<Rightarrow> response \<times> db" where
  "goals_toggle_milestone e userId goalId milestoneId =
     try_catch e ''Failed to update milestone'' (\<lambda>d.
       case find (\<lambda>gm. gm_id gm = milestoneId
                    \<and> (\<exists>g \<in> set (goals d). gm_goal_id gm = g_id g \<and> g_user_id g = userId))
              (goal_milestones d) of
         None \<Rightarrow> (\<lparr>status = 404, body = ErrorMsg ''Milestone not found''\<rparr>, d)
       | Some milestone \<Rightarrow>
           let newStatus = (if gm_is_completed milestone then False else True);
               d1 = d\<lparr>goal_milestones := map (\<lambda>m. if gm_id m = milestoneId
                       then m\<lparr>gm_is_completed := newStatus,
                              gm_completed_at := (if newStatus then Some (now e) else None)\<rparr>
                       else m) (goal_milestones d)\<rparr>;
               rows = filter (\<lambda>m. gm_goal_id m = goalId) (goal_milestones d1);
               total_rows = length rows;
               completed = length (filter gm_is_completed rows);
               d2 = (if total_rows > 0
                     then d1\<lparr>goals := map (\<lambda>g. if g_id g = goalId
                             then g\<lparr>g_progress := round_percent completed total_rows,
                                    g_updated_at := now e\<rparr>
                             else g) (goals d1)\<rparr>
                     else d1)
           in (\<lparr>status = 200, body = Toggled ''Milestone updated'' newStatus\<rparr>, d2))"

text \<open>\<open>DELETE /:goalId/milestones/:milestoneId\<close>\<close>

definition goals_delete_milestone :: "env \<Rightarrow> nat \<Rightarrow> nat \<Rightarrow> nat \<Rightarrow> db \<Rightarrow> response \<times> db" where
  "goals_delete_milestone e userId goalId milestoneId =
     try_catch e ''Failed to delete milestone'' (\<lambda>d.
       let hit = (\<lambda>m. gm_id m = milestoneId
                    \<and> gm_goal_id m \<in> set (map g_id (filter (\<lambda>g. g_user_id g = userId) (goals d))));
           changes = length (filter hit (goal_milestones d));
           d1 = d\<lparr>goal_milestones := filter (\<lambda>m. \<not> hit m) (goal_milestones d)\<rparr>
       in if changes = 0 then (\<lparr>status = 404, body = ErrorMsg ''Milestone not found''\<rparr>, d1)
          else (\<lparr>status = 200, body = Message ''Milestone deleted''\<rparr>, d1))"

section \<open>Journal (routes/journal.js)\<close>

text \<open>
  \<open>GROUP_CONCAT(ji.filename)\<close> of the \<open>LEFT JOIN\<close> and the \<open>split(',')\<close> of the handler:
  an entry without images has \<open>NULL\<close> there and gets the empty list.
\<close>

fun js_join :: "string \<Rightarrow> string list \<Rightarrow> string" where
  "js_join sep [] = []"
| "js_join sep [x] = x"
| "js_join sep (x # y # ys) = x @ sep @ js_join sep (y # ys)"

definition split_comma :: "string \<Rightarrow> string list" where
  "split_comma s =
     foldr (\<lambda>c acc. if c = CHR '','' then [] # acc else (c # hd acc) # tl acc) s [[]]"

definition entry_images :: "db \<Rightarrow> journal_entry \<Rightarrow> string list" where
  "entry_images d j =
     (let names = map ji_filename (filter (\<lambda>i. ji_journal_id i = je_id j) (journal_images d))
      in if names = [] \<or> js_join '','' names = [] then [] else split_comma (js_join '','' names))"

text \<open>
  SQLite's \<open>LIKE\<close> on ASCII text: \<open>%\<close> matches any run of characters, \<open>_\<close> any one
  character, letters match without regard to case.
\<close>

definition lower_char :: "char \<Rightarrow> char" where
  "lower_char c = (let n = (of_char c :: nat) in if 65 \<le> n \<and> n \<le> 90 then char_of (n + 32) else c)"

fun sql_like :: "string \<Rightarrow> string \<Rightarrow> bool" where
  "sql_like [] t = (t = [])"
| "sql_like (p # ps) [] = (p = CHR ''%'' \<and> sql_like ps [])"
| "sql_like (p # ps) (c # cs) =
     (if p = CHR ''%'' then sql_like ps (c # cs) \<or> sql_like (p # ps) cs
      else (p = CHR ''_'' \<or> lower_char p = lower_char c) \<and> sql_like ps cs)"

text \<open>\<open>GET /\<close> with the optional filters of the query string.\<close>

record journal_query =
  q_startDate :: "day option"
  q_endDate :: "day option"
  q_mood :: "string option"
  q_search :: "string option"

definition journal_match :: "nat \<Rightarrow> journal_query \<Rightarrow> journal_entry \<Rightarrow> bool" where
  "journal_match userId q j \<longleftrightarrow>
     je_user_id j = userId
   \<and> (case q_startDate q of None \<Rightarrow> True | Some s \<Rightarrow> s \<le> je_entry_date j)
   \<and> (case q_endDate q of None \<Rightarrow> True | Some s \<Rightarrow> je_entry_date j \<le> s)
   \<and> (case or_null (q_mood q) of None \<Rightarrow> True | Some m \<Rightarrow> je_mood j = Some m)
   \<and> (case or_null (q_search q) of None \<Rightarrow> True
      | Some s \<Rightarrow> (case je_title j of None \<Rightarrow> False | Some t \<Rightarrow> sql_like (''%'' @ s @ ''%'') t)
                 \<or> sql_like (''%'' @ s @ ''%'') (je_content j))"

definition journal_list :: "env \<Rightarrow> nat \<Rightarrow> journal_query \<Rightarrow> db \<Rightarrow> response \<times> db" where
  "journal_list e userId q =
     try_catch e ''Failed to fetch journal entries'' (\<lambda>d.
       let entries = sort_key (\<lambda>j. (- je_entry_date j, - je_created_at j))
                       (filter (journal_match userId q) (journal_entries d))
       in (\<lparr>status = 200, body = JournalRows (map (\<lambda>j. (j, entry_images d j)) entries)\<rparr>, d))"

text \<open>\<open>GET /:id\<close>\<close>

definition journal_get :: "env \<Rightarrow> nat \<Rightarrow> nat \<Rightarrow> db \<Rightarrow> response \<times> db" where
  "journal_get e userId entryId =
     try_catch e ''Failed to fetch journal entry'' (\<lambda>d.
       case find (\<lambda>j. je_id j = entryId \<and> je_user_id j = userId) (journal_entries d) of
         None \<Rightarrow> (\<lparr>status = 404, body = ErrorMsg ''Entry not found''\<rparr>, d)
       | Some entry \<Rightarrow>
           (\<lparr>status = 200,
             body = JournalRow entry
                      (filter (\<lambda>i. ji_journal_id i = je_id entry) (journal_images d))\<rparr>, d))"

text \<open>
  \<open>POST /\<close>. \<open>jb_files\<close> are the uploads multer has accepted, as (stored file name,
  original name).
\<close>

record journal_input =
  jb_title :: "string option"
  jb_content :: "string option"
  jb_mood :: "string option"
  jb_mood_note :: "string option"
  jb_entry_date :: "date_field option"
  jb_files :: "(string \<times> string) list"

definition moods :: "string list" where
  "moods = [''amazing'', ''good'', ''neutral'', ''bad'', ''terrible'']"

definition validate_journal :: "journal_input \<Rightarrow> field_error list" where
  "validate_journal b =
     (case jb_title b of None \<Rightarrow> []
      | Some t \<Rightarrow> if length (trim t) \<le> 200 then [] else [FieldError ''title'' ''Invalid value''])
   @ (if notEmpty (jb_content b) then [] else [FieldError ''content'' ''Content is required''])
   @ (case jb_mood b of None \<Rightarrow> []
      | Some m \<Rightarrow> if m \<in> set moods then [] else [FieldError ''mood'' ''Invalid value''])
   @ (case jb_entry_date b of None \<Rightarrow> []
      | Some x \<Rightarrow> if isDate x then [] else [FieldError ''entry_date'' ''Invalid value''])"

definition insert_image :: "env \<Rightarrow> nat \<Rightarrow> string \<times> string \<Rightarrow> db \<Rightarrow> db" where
  "insert_image e journalId file d =
     (let rowid = next_rowid (seq_journal_images d) (map ji_id (journal_images d)) in
      d\<lparr>journal_images := journal_images d @
           [\<lparr>ji_id = rowid, ji_journal_id = journalId, ji_filename = fst file,
             ji_original_name = snd file, ji_created_at = now e\<rparr>],
        seq_journal_images := rowid\<rparr>)"

definition journal_create :: "env \<Rightarrow> nat \<Rightarrow> journal_input \<Rightarrow> db \<Rightarrow> response \<times> db" where
  "journal_create e userId b d =
     (if validate_journal b \<noteq> []
      then (\<lparr>status = 400, body = ValidationErrors (validate_journal b)\<rparr>, d)
      else try_catch e ''Failed to create journal entry'' (\<lambda>d.
        let title = map_option trim (jb_title b);
            journalId = next_rowid (seq_journal_entries d) (map je_id (journal_entries d));
            d1 = d\<lparr>journal_entries := journal_entries d @
                   [\<lparr>je_id = journalId, je_user_id = userId, je_title = or_null title,
                     je_content = the (jb_content b), je_mood = or_null (jb_mood b),
                     je_mood_note = or_null (jb_mood_note b),
                     je_entry_date = (case jb_entry_date b of Some (ValidDate x) \<Rightarrow> x
                                      | _ \<Rightarrow> date_of (now e)),
                     je_created_at = now e, je_updated_at = now e\<rparr>],
                 seq_journal_entries := journalId\<rparr>;
            d2 = fold (insert_image e journalId) (jb_files b) d1;
            d3 = insert_activity e userId ''journal''
                   (''Created journal entry: ''
                      @ (case or_null title of None \<Rightarrow> ''Untitled'' | Some t \<Rightarrow> t)) d2
        in (\<lparr>status = 201, body = Created ''Journal entry created'' journalId\<rparr>, d3)) d)"

section \<open>Heatmap (routes/stats.js)\<close>

text \<open>
  \<open>strftime('%Y', date)\<close>: the year of a day number in the proleptic Gregorian calendar
  (day 0 is 1970-01-01).
\<close>

definition year_of_day :: "day \<Rightarrow> int" where
  "year_of_day z =
     (let z = z + 719468;
          era = z div 146097;
          doe = z mod 146097;
          yoe = (doe - doe div 1460 + doe div 36524 - doe div 146096) div 365;
          doy = doe - (365 * yoe + yoe div 4 - yoe div 100);
          mp = (5 * doy + 2) div 153
      in yoe + era * 400 + (if mp < 10 then 0 else 1))"

text \<open>\<open>SELECT date, COUNT(*) ... GROUP BY date\<close>: one item per distinct date.\<close>

definition group_count :: "day list \<Rightarrow> (day \<times> nat) list" where
  "group_count xs = map (\<lambda>x. (x, count_list xs x)) (remdups xs)"

text \<open>\<open>heatmapData[k] = (heatmapData[k] || 0) + count\<close> on the object, in insertion order.\<close>

fun merge_item :: "day \<times> nat \<Rightarrow> (day \<times> nat) list \<Rightarrow> (day \<times> nat) list" where
  "merge_item (k, c) [] = [(k, 0 + c)]"
| "merge_item (k, c) ((k', v) # m) =
     (if k' = k then (k', v + c) # m else (k', v) # merge_item (k, c) m)"

definition heatmapData :: "int \<Rightarrow> nat \<Rightarrow> db \<Rightarrow> (day \<times> nat) list" where
  "heatmapData targetYear userId d =
     (let activities = group_count (map al_activity_date
            (filter (\<lambda>a. al_user_id a = userId \<and> year_of_day (al_activity_date a) = targetYear)
               (activity_log d)));
          completedTodos = group_count (map (\<lambda>t. date_of (the (t_completed_at t)))
            (filter (\<lambda>t. t_user_id t = userId \<and> t_is_completed t
                         \<and> (case t_completed_at t of None \<Rightarrow> False
                             | Some ts \<Rightarrow> year_of_day (date_of ts) = targetYear))
               (todos d)));
          journalEntries = group_count (map je_entry_date
            (filter (\<lambda>j. je_user_id j = userId \<and> year_of_day (je_entry_date j) = targetYear)
               (journal_entries d)))
      in fold merge_item (activities @ completedTodos @ journalEntries) [])"

definition stats_heatmap :: "env \<Rightarrow> nat \<Rightarrow> int option \<Rightarrow> db \<Rightarrow> response \<times> db" where
  "stats_heatmap e userId year =
     (let targetYear = (case year of Some y \<Rightarrow> y | None \<Rightarrow> year_of_day (date_of (now e)))
      in try_catch e ''Failed to fetch heatmap data'' (\<lambda>d.
           (\<lparr>status = 200, body = HeatmapData (heatmapData targetYear userId d)\<rparr>, d)))"

section \<open>The application (server.js)\<close>

text \<open>
  The routes of the API that are modelled, each mounted behind \<open>requireAuth\<close>. The
  session is absent or carries a user id; \<open>requireAuth\<close> tests the id for truthiness.
\<close>

datatype request =
    JournalList journal_query
  | JournalGet nat
  | JournalCreate journal_input
  | GoalGet nat
  | GoalCreate goal_input
  | MilestoneToggle nat nat
  | MilestoneDelete nat nat
  | TodoToggle nat
  | TodoDelete nat
  | StatsHeatmap "int option"

definition requireAuth :: "nat option \<Rightarrow> (nat \<Rightarrow> db \<Rightarrow> response \<times> db) \<Rightarrow> db \<Rightarrow> response \<times> db" where
  "requireAuth session handler d =
     (case session of
        None \<Rightarrow> (\<lparr>status = 401, body = ErrorMsg ''Unauthorized''\<rparr>, d)
      | Some userId \<Rightarrow>
          if userId \<noteq> 0 then handler userId d
          else (\<lparr>status = 401, body = ErrorMsg ''Unauthorized''\<rparr>, d))"

fun route :: "env \<Rightarrow> request \<Rightarrow> nat \<Rightarrow> db \<Rightarrow> response \<times> db" where
  "route e (JournalList q) userId = journal_list e userId q"
| "route e (JournalGet entryId) userId = journal_get e userId entryId"
| "route e (JournalCreate b) userId = journal_create e userId b"
| "route e (GoalGet goalId) userId = goals_get e userId goalId"
| "route e (GoalCreate b) userId = goals_create e userId b"
| "route e (MilestoneToggle goalId milestoneId) userId =
     goals_toggle_milestone e userId goalId milestoneId"
| "route e (MilestoneDelete goalId milestoneId) userId =
     goals_delete_milestone e userId goalId milestoneId"
| "route e (TodoToggle todoId) userId = todos_toggle e userId todoId"
| "route e (TodoDelete todoId) userId = todos_delete e userId todoId"
| "route e (StatsHeatmap year) userId = stats_heatmap e userId year"

definition api :: "env \<Rightarrow> nat option \<Rightarrow> request \<Rightarrow> db \<Rightarrow> response \<times> db" where
  "api e session req = requireAuth session (route e req)"

section \<open>Quotes and tips (utils/quotes.js, routes/ai.js)\<close>

record quote =
  q_text :: string
  q_author :: string

definition quotes :: "quote list" where
  "quotes = [
    \<lparr>q_text = ''The secret of getting ahead is getting started.'',
      q_author = ''Mark Twain''\<rparr>,
    \<lparr>q_text = ''It does not matter how slowly you go as long as you do not stop.'',
      q_author = ''Confucius''\<rparr>,
    \<lparr>q_text = ''Success is not final, failure is not fatal: it is the courage to continue that counts.'',
      q_author = ''Winston Churchill''\<rparr>,
    \<lparr>q_text = ''The only way to do great work is to love what you do.'',
      q_author = ''Steve Jobs''\<rparr>,
    \<lparr>q_text = ''Believe you can and you're halfway there.'',
      q_author = ''Theodore Roosevelt''\<rparr>,
    \<lparr>q_text = ''The future belongs to those who believe in the beauty of their dreams.'',
      q_author = ''Eleanor Roosevelt''\<rparr>,
    \<lparr>q_text = ''Don't watch the clock; do what it does. Keep going.'',
      q_author = ''Sam Levenson''\<rparr>,
    \<lparr>q_text = ''Everything you've ever wanted is on the other side of fear.'',
      q_author = ''George Addair''\<rparr>,
    \<lparr>q_text = ''The only impossible journey is the one you never begin.'',
      q_author = ''Tony Robbins''\<rparr>,
    \<lparr>q_text = ''Start where you are. Use what you have. Do what you can.'',
      q_author = ''Arthur Ashe''\<rparr>,
    \<lparr>q_text = ''Your limitation'' @ [CHR 0xE2, CHR 0x80, CHR 0x94] @ ''it's only your imagination.'',
      q_author = ''Unknown''\<rparr>,
    \<lparr>q_text = ''Push yourself, because no one else is going to do it for you.'',
      q_author = ''Unknown''\<rparr>,
    \<lparr>q_text = ''Great things never come from comfort zones.'',
      q_author = ''Unknown''\<rparr>,
    \<lparr>q_text = ''Dream it. Wish it. Do it.'',
      q_author = ''Unknown''\<rparr>,
    \<lparr>q_text = ''Success doesn't just find you. You have to go out and get it.'',
      q_author = ''Unknown''\<rparr>,
    \<lparr>q_text = ''The harder you work for something, the greater you'll feel when you achieve it.'',
      q_author = ''Unknown''\<rparr>,
    \<lparr>q_text = ''Don't stop when you're tired. Stop when you're done.'',
      q_author = ''Unknown''\<rparr>,
    \<lparr>q_text = ''Wake up with determination. Go to bed with satisfaction.'',
      q_author = ''Unknown''\<rparr>,
    \<lparr>q_text = ''Do something today that your future self will thank you for.'',
      q_author = ''Sean Patrick Flanery''\<rparr>,
    \<lparr>q_text = ''Little things make big days.'',
      q_author = ''Unknown''\<rparr>,
    \<lparr>q_text = ''It's going to be hard, but hard does not mean impossible.'',
      q_author = ''Unknown''\<rparr>,
    \<lparr>q_text = ''Don't wait for opportunity. Create it.'',
      q_author = ''Unknown''\<rparr>,
    \<lparr>q_text = ''Sometimes we're tested not to show our weaknesses, but to discover our strengths.'',
      q_author = ''Unknown''\<rparr>,
    \<lparr>q_text = ''The key to success is to focus on goals, not obstacles.'',
      q_author = ''Unknown''\<rparr>,
    \<lparr>q_text = ''Dream bigger. Do bigger.'',
      q_author = ''Unknown''\<rparr>,
    \<lparr>q_text = ''You don't have to be great to start, but you have to start to be great.'',
      q_author = ''Zig Ziglar''\<rparr>,
    \<lparr>q_text = ''The way to get started is to quit talking and begin doing.'',
      q_author = ''Walt Disney''\<rparr>,
    \<lparr>q_text = ''Don't be afraid to give up the good to go for the great.'',
      q_author = ''John D. Rockefeller''\<rparr>,
    \<lparr>q_text = ''I find that the harder I work, the more luck I seem to have.'',
      q_author = ''Thomas Jefferson''\<rparr>,
    \<lparr>q_text = ''Success usually comes to those who are too busy to be looking for it.'',
      q_author = ''Henry David Thoreau''\<rparr>,
    \<lparr>q_text = ''If you are not willing to risk the usual, you will have to settle for the ordinary.'',
      q_author = ''Jim Rohn''\<rparr>,
    \<lparr>q_text = ''Take up one idea. Make that one idea your life.'',
      q_author = ''Swami Vivekananda''\<rparr>,
    \<lparr>q_text = ''All progress takes place outside the comfort zone.'',
      q_author = ''Michael John Bobak''\<rparr>,
    \<lparr>q_text = ''You miss 100% of the shots you don't take.'',
      q_author = ''Wayne Gretzky''\<rparr>,
    \<lparr>q_text = ''Whether you think you can or think you can't, you're right.'',
      q_author = ''Henry Ford''\<rparr>,
    \<lparr>q_text = ''The only person you are destined to become is the person you decide to be.'',
      q_author = ''Ralph Waldo Emerson''\<rparr>,
    \<lparr>q_text = ''I attribute my success to this: I never gave or took any excuse.'',
      q_author = ''Florence Nightingale''\<rparr>,
    \<lparr>q_text = ''If you really look closely, most overnight successes took a long time.'',
      q_author = ''Steve Jobs''\<rparr>,
    \<lparr>q_text = ''The successful warrior is the average man, with laser-like focus.'',
      q_author = ''Bruce Lee''\<rparr>,
    \<lparr>q_text = ''There are no secrets to success. It is the result of preparation, hard work, and learning from failure.'',
      q_author = ''Colin Powell''\<rparr>,
    \<lparr>q_text = ''Action is the foundational key to all success.'',
      q_author = ''Pablo Picasso''\<rparr>,
    \<lparr>q_text = ''Things work out best for those who make the best of how things work out.'',
      q_author = ''John Wooden''\<rparr>,
    \<lparr>q_text = ''A year from now you may wish you had started today.'',
      q_author = ''Karen Lamb''\<rparr>,
    \<lparr>q_text = ''Small daily improvements over time lead to stunning results.'',
      q_author = ''Robin Sharma''\<rparr>,
    \<lparr>q_text = ''Discipline is the bridge between goals and accomplishment.'',
      q_author = ''Jim Rohn''\<rparr>,
    \<lparr>q_text = ''What you do today can improve all your tomorrows.'',
      q_author = ''Ralph Marston''\<rparr>,
    \<lparr>q_text = ''The difference between ordinary and extraordinary is that little extra.'',
      q_author = ''Jimmy Johnson''\<rparr>,
    \<lparr>q_text = ''Your time is limited, don't waste it living someone else's life.'',
      q_author = ''Steve Jobs''\<rparr>,
    \<lparr>q_text = ''Be so good they can't ignore you.'',
      q_author = ''Steve Martin''\<rparr>,
    \<lparr>q_text = ''The best time to plant a tree was 20 years ago. The second best time is now.'',
      q_author = ''Chinese Proverb''\<rparr>]"




definition toLowerCase :: "string \<Rightarrow> string" where
  "toLowerCase s = map lower_char s"

fun starts_with :: "string \<Rightarrow> string \<Rightarrow> bool" where
  "starts_with s [] = True"
| "starts_with [] (p # ps) = False"
| "starts_with (c # cs) (p # ps) = (c = p \<and> starts_with cs ps)"

fun str_includes :: "string \<Rightarrow> string \<Rightarrow> bool" where
  "str_includes [] sub = (sub = [])"
| "str_includes (c # cs) sub = (starts_with (c # cs) sub \<or> str_includes cs sub)"

text \<open>
  \<open>getMotivationalQuote\<close> reads the local hour of the clock and one value of
  \<open>Math.random()\<close>; both are arguments here. An index outside the pool reads
  \<open>undefined\<close>, which is \<open>None\<close>.
\<close>

definition getMotivationalQuote :: "nat \<Rightarrow> rat \<Rightarrow> quote option" where
  "getMotivationalQuote hour random =
     (let category =
            (if hour < 12 then
               filter (\<lambda>q. str_includes (toLowerCase (q_text q)) ''start''
                          \<or> str_includes (toLowerCase (q_text q)) ''begin''
                          \<or> str_includes (toLowerCase (q_text q)) ''today'') quotes
             else if hour < 17 then
               filter (\<lambda>q. str_includes (toLowerCase (q_text q)) ''keep''
                          \<or> str_includes (toLowerCase (q_text q)) ''continu''
                          \<or> str_includes (toLowerCase (q_text q)) ''work'') quotes
             else
               filter (\<lambda>q. str_includes (toLowerCase (q_text q)) ''success''
                          \<or> str_includes (toLowerCase (q_text q)) ''great''
                          \<or> str_includes (toLowerCase (q_text q)) ''achieve'') quotes);
          pool = (if length category > 0 then category else quotes);
          i = \<lfloor>random * of_nat (length pool)\<rfloor>
      in if 0 \<le> i \<and> i < int (length pool) then Some (pool ! nat i) else None)"


section \<open>Notification poller (utils/notifications.js)\<close>

record notification =
  n_title :: string
  n_message :: string
  n_type :: string

fun string_of_nat :: "nat \<Rightarrow> string" where
  "string_of_nat n =
     (if n < 10 then [char_of (48 + n)]
      else string_of_nat (n div 10) @ [char_of (48 + n mod 10)])"

text \<open>
  \<open>checkAndNotify\<close>: the users joined with their settings where reminders are enabled,
  then for each the two counting queries. The result is the notifications sent and the
  database after the run.
\<close>

definition checkAndNotify :: "env \<Rightarrow> db \<Rightarrow> notification list \<times> db" where
  "checkAndNotify e d =
     (if db_throws e then ([], d)
      else
        let rows = concat (map (\<lambda>u. map (\<lambda>ns. (u_id u, ns_pending_threshold ns))
                       (filter (\<lambda>ns. ns_user_id ns = u_id u \<and> ns_reminder_enabled ns)
                          (notification_settings d))) (users d));
            today = date_of (now e)
        in (concat (map (\<lambda>(userId, pending_threshold).
              let pendingTodos = length (filter (\<lambda>t. t_user_id t = userId
                                   \<and> t_scheduled_date t = today \<and> \<not> t_is_completed t) (todos d));
                  overdueTodos = length (filter (\<lambda>t. t_user_id t = userId
                                   \<and> t_scheduled_date t < today \<and> \<not> t_is_completed t) (todos d))
              in (if pending_threshold \<le> int pendingTodos
                  then [\<lparr>n_title = [CHR 0xF0, CHR 0x9F, CHR 0x93, CHR 0x8B] @ '' Tasks Reminder'',
                          n_message = ''You have '' @ string_of_nat pendingTodos
                                        @ '' tasks left for today. Keep going!'',
                          n_type = ''todo-reminder''\<rparr>]
                  else [])
               @ (if overdueTodos > 0
                  then [\<lparr>n_title = [CHR 0xE2, CHR 0x9A, CHR 0xA0, CHR 0xEF, CHR 0xB8, CHR 0x8F]
                                      @ '' Overdue Tasks'',
                          n_message = ''You have '' @ string_of_nat overdueTodos
                                        @ '' overdue tasks. Consider rescheduling them.'',
                          n_type = ''overdue-reminder''\<rparr>]
                  else [])) rows), d))"

definition sendMotivationalNotification :: "env \<Rightarrow> nat \<Rightarrow> rat \<Rightarrow> db \<Rightarrow> notification list \<times> db" where
  "sendMotivationalNotification e hour random d =
     (if db_throws e then ([], d)
      else
        let rows = concat (map (\<lambda>u. map (\<lambda>ns. u_id u)
                       (filter (\<lambda>ns. ns_user_id ns = u_id u \<and> ns_motivation_enabled ns)
                          (notification_settings d))) (users d))
        in if length rows > 0
           then (case getMotivationalQuote hour random of
                   None \<Rightarrow> ([], d)
                 | Some quote \<Rightarrow>
                     ([\<lparr>n_title = [CHR 0xE2, CHR 0x9C, CHR 0xA8] @ '' Daily Inspiration'',
                        n_message = [CHR 0x22] @ q_text quote @ [CHR 0x22] @ '' - '' @ q_author quote,
                        n_type = ''motivation''\<rparr>], d))
           else ([], d))"

section \<open>Specification vocabulary and sample databases\<close>


definition empty_db :: db where
  "empty_db = \<lparr>users = [], journal_entries = [], journal_images = [], goals = [],
     goal_milestones = [], todos = [], notification_settings = [], activity_log = [],
     seq_journal_entries = 0, seq_journal_images = 0, seq_goals = 0,
     seq_goal_milestones = 0, seq_activity_log = 0\<rparr>"


definition day100 :: env where
  "day100 = \<lparr>now = 8643600, db_throws = False\<rparr>"

text \<open>
  The heatmap count of a day as the sum of its three sources: the activity-log rows of
  the user dated that day, the user's completed todos completed that day, and the
  user's journal entries dated that day.
\<close>

definition heatmap_total :: "db \<Rightarrow> nat \<Rightarrow> day \<Rightarrow> nat" where
  "heatmap_total d userId x =
     length (filter (\<lambda>a. al_user_id a = userId \<and> al_activity_date a = x) (activity_log d))
   + length (filter (\<lambda>t. t_user_id t = userId \<and> t_is_completed t
                       \<and> map_option date_of (t_completed_at t) = Some x) (todos d))
   + length (filter (\<lambda>j. je_user_id j = userId \<and> je_entry_date j = x) (journal_entries d))"

definition day100_later :: env where
  "day100_later = \<lparr>now = 8647200, db_throws = False\<rparr>"

text \<open>User 1 has an open todo, user 2 a completed one; nothing is logged yet.\<close>

definition todo_db :: db where
  "todo_db = empty_db\<lparr>
     todos :=
       [\<lparr>t_id = 1, t_user_id = 1, t_title = ''Write report'', t_description = None,
         t_priority = ''high'', t_scheduled_date = 100, t_is_completed = False,
         t_completed_at = None, t_created_at = 8640000, t_updated_at = 8640000\<rparr>,
        \<lparr>t_id = 2, t_user_id = 2, t_title = ''Run'', t_description = None,
         t_priority = ''medium'', t_scheduled_date = 99, t_is_completed = True,
         t_completed_at = Some 8553660, t_created_at = 8553600, t_updated_at = 8553660\<rparr>]\<rparr>"

text \<open>
  User 1 owns goal 1 with two milestones, the first of them completed, and the stored
  progress is the 50 that toggling it gave.
\<close>

definition goal_db :: db where
  "goal_db = empty_db\<lparr>
     goals :=
       [\<lparr>g_id = 1, g_user_id = 1, g_title = ''Learn Isabelle'', g_description = None,
         g_goal_type = ''short-term'', g_target_date = None, g_progress = 50,
         g_status = ''active'', g_created_at = 8553600, g_updated_at = 8553660,
         g_completed_at = None\<rparr>],
     goal_milestones :=
       [\<lparr>gm_id = 1, gm_goal_id = 1, gm_title = ''Read the tutorial'', gm_is_completed = True,
         gm_completed_at = Some 8553660, gm_created_at = 8553600\<rparr>,
        \<lparr>gm_id = 2, gm_goal_id = 1, gm_title = ''Prove a lemma'', gm_is_completed = False,
         gm_completed_at = None, gm_created_at = 8553600\<rparr>],
     seq_goals := 1, seq_goal_milestones := 2\<rparr>"

text \<open>
  Two users. User 1 owns goal 1 with milestone 1. User 2 owns goal 2 with the open
  milestone 2 and has set its progress to 75 by hand (\<open>PUT /:id\<close> with \<open>progress\<close>).
\<close>

definition two_user_db :: db where
  "two_user_db = empty_db\<lparr>
     users :=
       [\<lparr>u_id = 1, u_username = ''alice'', u_password_hash = ''x'', u_created_at = 8467200\<rparr>,
        \<lparr>u_id = 2, u_username = ''bob'', u_password_hash = ''y'', u_created_at = 8467200\<rparr>],
     goals :=
       [\<lparr>g_id = 1, g_user_id = 1, g_title = ''Learn Isabelle'', g_description = None,
         g_goal_type = ''short-term'', g_target_date = None, g_progress = 0,
         g_status = ''active'', g_created_at = 8553600, g_updated_at = 8553600,
         g_completed_at = None\<rparr>,
        \<lparr>g_id = 2, g_user_id = 2, g_title = ''Run a marathon'', g_description = None,
         g_goal_type = ''long-term'', g_target_date = None, g_progress = 75,
         g_status = ''active'', g_created_at = 8553600, g_updated_at = 8553700,
         g_completed_at = None\<rparr>],
     goal_milestones :=
       [\<lparr>gm_id = 1, gm_goal_id = 1, gm_title = ''Read the tutorial'', gm_is_completed = False,
         gm_completed_at = None, gm_created_at = 8553600\<rparr>,
        \<lparr>gm_id = 2, gm_goal_id = 2, gm_title = ''Register'', gm_is_completed = False,
         gm_completed_at = None, gm_created_at = 8553600\<rparr>],
     seq_goals := 2, seq_goal_milestones := 2\<rparr>"















section \<open>Properties of the streak computation\<close>








section \<open>Properties of the todo toggle\<close>

lemma find_map_invariant:
  assumes "\<And>x. P (f x) = P x"
  shows "find P (map f xs) = map_option f (find P xs)"
  using assms by (induction xs) simp_all

lemma find_None_filter: "find P xs = None \<Longrightarrow> filter P xs = []"
  by (induction xs) (simp_all split: if_splits)

lemma find_Some_distinct_key:
  assumes "find P xs = Some x" and "distinct (map key xs)"
  shows "x \<in> set xs \<and> P x \<and> (\<forall>y \<in> set xs. key y = key x \<longrightarrow> y = x)"
proof -
  from assms(1) have mem: "x \<in> set xs" and px: "P x"
    by (auto simp: find_Some_iff)
  from assms(2) have "inj_on key (set xs)"
    by (simp add: distinct_map)
  with mem have "\<forall>y \<in> set xs. key y = key x \<longrightarrow> y = x"
    by (auto dest: inj_onD)
  with mem px show ?thesis by blast
qed

lemma todos_insert_activity [simp]: "todos (insert_activity e u ty det d) = todos d"
  by (simp add: insert_activity_def Let_def)

lemma todos_toggle_missing:
  assumes "\<not> db_throws e" and "find (\<lambda>t. t_id t = todoId \<and> t_user_id t = userId) (todos d) = None"
  shows "todos_toggle e userId todoId d = (\<lparr>status = 404, body = ErrorMsg ''Todo not found''\<rparr>, d)"
  using assms by (simp add: todos_toggle_def try_catch_def)

lemma todos_toggle_found:
  assumes "\<not> db_throws e" and "find (\<lambda>t. t_id t = todoId \<and> t_user_id t = userId) (todos d) = Some todo"
  shows "fst (todos_toggle e userId todoId d)
           = \<lparr>status = 200, body = Toggled ''Todo updated'' (\<not> t_is_completed todo)\<rparr>"
    and "todos (snd (todos_toggle e userId todoId d))
           = map (\<lambda>t. if t_id t = todoId
                    then t\<lparr>t_is_completed := \<not> t_is_completed todo,
                           t_completed_at := (if t_is_completed todo then None else Some (now e)),
                           t_updated_at := now e\<rparr>
                    else t) (todos d)"
    and "activity_log (snd (todos_toggle e userId todoId d))
           = (if t_is_completed todo then activity_log d
              else activity_log d @
                [\<lparr>al_id = next_rowid (seq_activity_log d) (map al_id (activity_log d)),
                  al_user_id = userId, al_activity_type = ''todo_completed'',
                  al_activity_date = date_of (now e),
                  al_details = Some (''Completed: '' @ t_title todo),
                  al_created_at = now e\<rparr>])"
    and "journal_entries (snd (todos_toggle e userId todoId d)) = journal_entries d"
  using assms by (simp_all add: todos_toggle_def try_catch_def Let_def insert_activity_def)


text \<open>
  C4. Toggling a todo twice gives every todo its completion flag back; after the first
  toggle the flag of the addressed todo of the session's user is the opposite one.
  The ids of the table are distinct (\<open>PRIMARY KEY\<close>) and both requests run without a
  database failure.
\<close>

theorem todos_toggle_twice:
  assumes "distinct (map t_id (todos d))" and "\<not> db_throws e1" and "\<not> db_throws e2"
  shows "map t_is_completed (todos (snd (todos_toggle e1 userId todoId d)))
           = map (\<lambda>t. if t_id t = todoId \<and> t_user_id t = userId
                    then \<not> t_is_completed t else t_is_completed t) (todos d)
       \<and> map t_is_completed
           (todos (snd (todos_toggle e2 userId todoId (snd (todos_toggle e1 userId todoId d)))))
           = map t_is_completed (todos d)"
proof (cases "find (\<lambda>t. t_id t = todoId \<and> t_user_id t = userId) (todos d)")
  case None
  then have no: "\<forall>t \<in> set (todos d). \<not> (t_id t = todoId \<and> t_user_id t = userId)"
    by (simp add: find_None_iff)
  have 1: "todos_toggle e1 userId todoId d = (\<lparr>status = 404, body = ErrorMsg ''Todo not found''\<rparr>, d)"
    using assms(2) None by (rule todos_toggle_missing)
  have 2: "todos_toggle e2 userId todoId d = (\<lparr>status = 404, body = ErrorMsg ''Todo not found''\<rparr>, d)"
    using assms(3) None by (rule todos_toggle_missing)
  have "map t_is_completed (todos d)
      = map (\<lambda>t. if t_id t = todoId \<and> t_user_id t = userId
               then \<not> t_is_completed t else t_is_completed t) (todos d)"
  proof (intro map_cong refl)
    fix t assume "t \<in> set (todos d)"
    with no have "\<not> (t_id t = todoId \<and> t_user_id t = userId)" by blast
    then show "t_is_completed t = (if t_id t = todoId \<and> t_user_id t = userId
               then \<not> t_is_completed t else t_is_completed t)"
      by simp
  qed
  then show ?thesis by (simp add: 1 2)
next
  case (Some todo)
  define c where "c = t_is_completed todo"
  define f1 :: "todo \<Rightarrow> todo" where "f1 = (\<lambda>t. if t_id t = todoId
                    then t\<lparr>t_is_completed := \<not> c,
                           t_completed_at := (if c then None else Some (now e1)),
                           t_updated_at := now e1\<rparr>
                    else t)"
  define f2 :: "todo \<Rightarrow> todo" where "f2 = (\<lambda>t. if t_id t = todoId
                    then t\<lparr>t_is_completed := c,
                           t_completed_at := (if \<not> c then None else Some (now e2)),
                           t_updated_at := now e2\<rparr>
                    else t)"
  define d1 where "d1 = snd (todos_toggle e1 userId todoId d)"
  from Some assms(1) have mem: "todo \<in> set (todos d)"
    and own: "t_id todo = todoId" "t_user_id todo = userId"
    and uniq: "\<forall>t \<in> set (todos d). t_id t = t_id todo \<longrightarrow> t = todo"
    using find_Some_distinct_key [of "\<lambda>t. t_id t = todoId \<and> t_user_id t = userId" "todos d" todo t_id]
    by blast+
  have t1: "todos d1 = map f1 (todos d)"
    unfolding d1_def f1_def c_def using assms(2) Some by (rule todos_toggle_found(2))
  have "find (\<lambda>t. t_id t = todoId \<and> t_user_id t = userId) (map f1 (todos d))
      = map_option f1 (find (\<lambda>t. t_id t = todoId \<and> t_user_id t = userId) (todos d))"
    by (rule find_map_invariant) (simp add: f1_def)
  with Some t1 have found1: "find (\<lambda>t. t_id t = todoId \<and> t_user_id t = userId) (todos d1) = Some (f1 todo)"
    by simp
  have c1: "t_is_completed (f1 todo) = (\<not> c)"
    using own by (simp add: f1_def)
  have t2: "todos (snd (todos_toggle e2 userId todoId d1)) = map f2 (todos d1)"
    using todos_toggle_found(2) [OF assms(3) found1] by (simp add: c1 f2_def)
  have once: "map t_is_completed (todos d1)
      = map (\<lambda>t. if t_id t = todoId \<and> t_user_id t = userId
               then \<not> t_is_completed t else t_is_completed t) (todos d)"
    unfolding t1 map_map
  proof (intro map_cong refl)
    fix t assume t: "t \<in> set (todos d)"
    show "(t_is_completed \<circ> f1) t = (if t_id t = todoId \<and> t_user_id t = userId
               then \<not> t_is_completed t else t_is_completed t)"
    proof (cases "t_id t = todoId")
      case True
      with t uniq own have "t = todo" by simp
      then show ?thesis using own by (simp add: f1_def c_def)
    next
      case False
      then show ?thesis by (simp add: f1_def)
    qed
  qed
  have twice: "map t_is_completed (todos (snd (todos_toggle e2 userId todoId d1)))
      = map t_is_completed (todos d)"
    unfolding t2 t1 map_map
  proof (intro map_cong refl)
    fix t assume t: "t \<in> set (todos d)"
    show "(t_is_completed \<circ> (f2 \<circ> f1)) t = t_is_completed t"
    proof (cases "t_id t = todoId")
      case True
      with t uniq own have "t = todo" by simp
      then show ?thesis using own by (simp add: f1_def f2_def c_def)
    next
      case False
      then show ?thesis by (simp add: f1_def f2_def)
    qed
  qed
  from once twice show ?thesis unfolding d1_def by simp
qed

theorem todos_toggle_twice_witness:
  "distinct (map t_id (todos todo_db)) \<and> \<not> db_throws day100 \<and> \<not> db_throws day100_later
   \<and> map t_is_completed (todos (snd (todos_toggle day100 1 1 todo_db))) = [True, True]
   \<and> map t_is_completed
        (todos (snd (todos_toggle day100_later 1 1 (snd (todos_toggle day100 1 1 todo_db)))))
      = [False, True]"
proof -
  have h1: "distinct (map t_id (todos todo_db))"
    by (simp add: todo_db_def empty_db_def)
  have h2: "\<not> db_throws day100" by (simp add: day100_def)
  have h3: "\<not> db_throws day100_later" by (simp add: day100_later_def)
  from todos_toggle_twice [OF h1 h2 h3, of 1 1]
  have "map t_is_completed (todos (snd (todos_toggle day100 1 1 todo_db))) = [True, True]"
    and "map t_is_completed
        (todos (snd (todos_toggle day100_later 1 1 (snd (todos_toggle day100 1 1 todo_db)))))
      = [False, True]"
    by (simp_all add: todo_db_def empty_db_def)
  with h1 h2 h3 show ?thesis by blast
qed

lemma length_filter_map_invariant:
  assumes "\<And>x. x \<in> set xs \<Longrightarrow> P (f x) = P x"
  shows "length (filter P (map f xs)) = length (filter P xs)"
  using assms by (induction xs) simp_all

text \<open>
  C9, as the code has it. Toggling an open todo to completed appends a
  \<open>todo_completed\<close> row dated today to the activity log; toggling it back leaves the log
  as it is. After the round trip the todo has its fields back except \<open>updated_at\<close>,
  which holds the time of the second toggle (\<open>completed_at\<close> is \<open>NULL\<close> again); the
  day of the first toggle still counts as a day with activity and its heatmap total is
  one higher than before.
\<close>

theorem toggle_round_trip_keeps_activity_row:
  assumes "distinct (map t_id (todos d))"
    and "find (\<lambda>t. t_id t = todoId \<and> t_user_id t = userId) (todos d) = Some todo"
    and "\<not> t_is_completed todo" and "\<not> db_throws e1" and "\<not> db_throws e2"
  shows "activity_log (snd (todos_toggle e1 userId todoId d))
           = activity_log d @
               [\<lparr>al_id = next_rowid (seq_activity_log d) (map al_id (activity_log d)),
                 al_user_id = userId, al_activity_type = ''todo_completed'',
                 al_activity_date = date_of (now e1),
                 al_details = Some (''Completed: '' @ t_title todo),
                 al_created_at = now e1\<rparr>]
       \<and> activity_log (snd (todos_toggle e2 userId todoId (snd (todos_toggle e1 userId todoId d))))
           = activity_log (snd (todos_toggle e1 userId todoId d))
       \<and> todos (snd (todos_toggle e2 userId todoId (snd (todos_toggle e1 userId todoId d))))
           = map (\<lambda>t. if t_id t = todoId
                    then t\<lparr>t_completed_at := None, t_updated_at := now e2\<rparr> else t) (todos d)
       \<and> hasActivity (snd (todos_toggle e2 userId todoId (snd (todos_toggle e1 userId todoId d))))
             userId (date_of (now e1))
       \<and> heatmap_total (snd (todos_toggle e2 userId todoId (snd (todos_toggle e1 userId todoId d))))
             userId (date_of (now e1))
           = heatmap_total d userId (date_of (now e1)) + 1"
proof -
  let ?P = "\<lambda>t. t_id t = todoId \<and> t_user_id t = userId"
  define f1 :: "todo \<Rightarrow> todo" where "f1 = (\<lambda>t. if t_id t = todoId
                    then t\<lparr>t_is_completed := True, t_completed_at := Some (now e1),
                           t_updated_at := now e1\<rparr>
                    else t)"
  define g :: "todo \<Rightarrow> todo" where "g = (\<lambda>t. if t_id t = todoId
                    then t\<lparr>t_completed_at := None, t_updated_at := now e2\<rparr> else t)"
  define row where "row = \<lparr>al_id = next_rowid (seq_activity_log d) (map al_id (activity_log d)),
                 al_user_id = userId, al_activity_type = ''todo_completed'',
                 al_activity_date = date_of (now e1),
                 al_details = Some (''Completed: '' @ t_title todo),
                 al_created_at = now e1\<rparr>"
  define d1 where "d1 = snd (todos_toggle e1 userId todoId d)"
  define d2 where "d2 = snd (todos_toggle e2 userId todoId d1)"
  from assms(2,1) have mem: "todo \<in> set (todos d)"
    and own: "t_id todo = todoId" "t_user_id todo = userId"
    and uniq: "\<forall>t \<in> set (todos d). t_id t = t_id todo \<longrightarrow> t = todo"
    using find_Some_distinct_key [of ?P "todos d" todo t_id] by blast+
  note first = todos_toggle_found [OF assms(4) assms(2)]
  have t1: "todos d1 = map f1 (todos d)"
    unfolding d1_def f1_def using first(2) assms(3) by simp
  have a1: "activity_log d1 = activity_log d @ [row]"
    unfolding d1_def row_def using first(3) assms(3) by simp
  have j1: "journal_entries d1 = journal_entries d"
    unfolding d1_def by (rule first(4))
  have "find ?P (map f1 (todos d)) = map_option f1 (find ?P (todos d))"
    by (rule find_map_invariant) (simp add: f1_def)
  with assms(2) t1 have found1: "find ?P (todos d1) = Some (f1 todo)"
    by simp
  have c1: "t_is_completed (f1 todo)"
    using own by (simp add: f1_def)
  note second = todos_toggle_found [OF assms(5) found1]
  have a2: "activity_log d2 = activity_log d1"
    unfolding d2_def using second(3) c1 by simp
  have j2: "journal_entries d2 = journal_entries d"
    unfolding d2_def using second(4) j1 by simp
  have t2: "todos d2 = map g (todos d)"
  proof -
    have "todos d2 = map (\<lambda>t. if t_id t = todoId
                    then t\<lparr>t_is_completed := False, t_completed_at := None,
                           t_updated_at := now e2\<rparr> else t) (todos d1)"
      unfolding d2_def using second(2) c1 by simp
    also have "\<dots> = map g (todos d)"
      unfolding t1 map_map
    proof (intro map_cong refl)
      fix t assume t: "t \<in> set (todos d)"
      show "((\<lambda>t. if t_id t = todoId
                    then t\<lparr>t_is_completed := False, t_completed_at := None,
                           t_updated_at := now e2\<rparr> else t) \<circ> f1) t = g t"
      proof (cases "t_id t = todoId")
        case True
        with t uniq own have "t = todo" by simp
        then show ?thesis using own assms(3) by (cases todo) (simp add: f1_def g_def)
      next
        case False
        then show ?thesis by (simp add: f1_def g_def)
      qed
    qed
    finally show ?thesis .
  qed
  have act: "hasActivity d2 userId (date_of (now e1))"
    unfolding hasActivity_def a2 a1 by (simp add: row_def)
  have todo_part: "length (filter (\<lambda>t. t_user_id t = userId \<and> t_is_completed t
                       \<and> map_option date_of (t_completed_at t) = Some (date_of (now e1))) (map g (todos d)))
      = length (filter (\<lambda>t. t_user_id t = userId \<and> t_is_completed t
                       \<and> map_option date_of (t_completed_at t) = Some (date_of (now e1))) (todos d))"
  proof (rule length_filter_map_invariant)
    fix t assume t: "t \<in> set (todos d)"
    show "(t_user_id (g t) = userId \<and> t_is_completed (g t)
             \<and> map_option date_of (t_completed_at (g t)) = Some (date_of (now e1)))
        = (t_user_id t = userId \<and> t_is_completed t
             \<and> map_option date_of (t_completed_at t) = Some (date_of (now e1)))"
    proof (cases "t_id t = todoId")
      case True
      with t uniq own have "t = todo" by simp
      then show ?thesis using assms(3) by (simp add: g_def)
    next
      case False
      then show ?thesis by (simp add: g_def)
    qed
  qed
  have heat: "heatmap_total d2 userId (date_of (now e1)) = heatmap_total d userId (date_of (now e1)) + 1"
    unfolding heatmap_total_def a2 a1 j2 t2 todo_part by (simp add: row_def)
  from a1 a2 t2 act heat show ?thesis
    unfolding d2_def d1_def row_def g_def by blast
qed

theorem toggle_round_trip_keeps_activity_row_witness:
  "distinct (map t_id (todos todo_db))
   \<and> find (\<lambda>t. t_id t = 1 \<and> t_user_id t = 1) (todos todo_db) = Some (hd (todos todo_db))
   \<and> \<not> t_is_completed (hd (todos todo_db))
   \<and> \<not> db_throws day100 \<and> \<not> db_throws day100_later
   \<and> activity_log (snd (todos_toggle day100_later 1 1 (snd (todos_toggle day100 1 1 todo_db))))
      = [\<lparr>al_id = 1, al_user_id = 1, al_activity_type = ''todo_completed'',
          al_activity_date = 100, al_details = Some ''Completed: Write report'',
          al_created_at = 8643600\<rparr>]
   \<and> hasActivity (snd (todos_toggle day100_later 1 1 (snd (todos_toggle day100 1 1 todo_db)))) 1 100
   \<and> \<not> hasActivity todo_db 1 100
   \<and> heatmap_total (snd (todos_toggle day100_later 1 1 (snd (todos_toggle day100 1 1 todo_db)))) 1 100 = 1
   \<and> heatmap_total todo_db 1 100 = 0"
proof -
  have h1: "distinct (map t_id (todos todo_db))"
    by (simp add: todo_db_def empty_db_def)
  have h2: "find (\<lambda>t. t_id t = 1 \<and> t_user_id t = 1) (todos todo_db) = Some (hd (todos todo_db))"
    by (simp add: todo_db_def empty_db_def)
  have h3: "\<not> t_is_completed (hd (todos todo_db))"
    by (simp add: todo_db_def empty_db_def)
  have h4: "\<not> db_throws day100" by (simp add: day100_def)
  have h5: "\<not> db_throws day100_later" by (simp add: day100_later_def)
  have t: "date_of (now day100) = 100" by (simp add: date_of_def day100_def)
  have z: "heatmap_total todo_db 1 100 = 0" "\<not> hasActivity todo_db 1 100"
    by (simp_all add: heatmap_total_def hasActivity_def todo_db_def empty_db_def date_of_def)
  note inst = toggle_round_trip_keeps_activity_row [OF h1 h2 h3 h4 h5, unfolded t]
  from inst have "activity_log (snd (todos_toggle day100_later 1 1 (snd (todos_toggle day100 1 1 todo_db))))
      = [\<lparr>al_id = 1, al_user_id = 1, al_activity_type = ''todo_completed'',
          al_activity_date = 100, al_details = Some ''Completed: Write report'',
          al_created_at = 8643600\<rparr>]"
    by (simp add: todo_db_def empty_db_def next_rowid_def day100_def)
  moreover from inst have "hasActivity (snd (todos_toggle day100_later 1 1 (snd (todos_toggle day100 1 1 todo_db)))) 1 100"
    by blast
  moreover from inst z(1) have "heatmap_total (snd (todos_toggle day100_later 1 1 (snd (todos_toggle day100 1 1 todo_db)))) 1 100 = 1"
    by simp
  ultimately show ?thesis using h1 h2 h3 h4 h5 z by blast
qed

text \<open>
  The round trip does not give the todo all its fields back: \<open>updated_at\<close> of the
  toggled todo is the time of the second toggle.
\<close>

theorem todo_fields_restored_counterexample:
  "todos (snd (todos_toggle day100_later 1 1 (snd (todos_toggle day100 1 1 todo_db))))
     \<noteq> todos todo_db
   \<and> map t_updated_at
        (todos (snd (todos_toggle day100_later 1 1 (snd (todos_toggle day100 1 1 todo_db)))))
      = [8647200, 8553660]
   \<and> map t_updated_at (todos todo_db) = [8640000, 8553660]"
  by (simp add: todos_toggle_def try_catch_def Let_def insert_activity_def todo_db_def
      empty_db_def day100_def day100_later_def)


section \<open>Properties of the goal routes\<close>

text \<open>
  C2. The claim asks that every operation that changes the ratio of completed
  milestones recomputes the goal's progress. Deleting a milestone does not: user 1
  deletes the completed milestone 1 of goal 1, one open milestone is left (0 of 1, which
  rounds to 0), and the stored progress is still 50.
\<close>

theorem delete_milestone_leaves_progress_stale:
  "status (fst (goals_delete_milestone day100 1 1 1 goal_db)) = 200
   \<and> map gm_id (goal_milestones (snd (goals_delete_milestone day100 1 1 1 goal_db))) = [2]
   \<and> map gm_is_completed (goal_milestones (snd (goals_delete_milestone day100 1 1 1 goal_db)))
      = [False]
   \<and> map g_progress (goals (snd (goals_delete_milestone day100 1 1 1 goal_db))) = [50]
   \<and> round_percent 0 1 = 0"
  by code_simp

text \<open>
  C3. The claim asks that no request of user A changes a row of user B. The milestone
  toggle checks who owns the milestone but not who owns the goal of the path: user 1
  toggles the own milestone 1 under the path of goal 2, the request succeeds, and goal 2
  of user 2 has its progress rewritten from 75 to 0 and a new \<open>updated_at\<close>.
\<close>

theorem toggle_with_foreign_goal_id_rewrites_it:
  "status (fst (api day100 (Some 1) (MilestoneToggle 2 1) two_user_db)) = 200
   \<and> map g_user_id (goals two_user_db) = [1, 2]
   \<and> map g_progress (goals two_user_db) = [0, 75]
   \<and> map g_progress (goals (snd (api day100 (Some 1) (MilestoneToggle 2 1) two_user_db))) = [0, 0]
   \<and> map g_updated_at (goals two_user_db) = [8553600, 8553700]
   \<and> map g_updated_at (goals (snd (api day100 (Some 1) (MilestoneToggle 2 1) two_user_db)))
      = [8553600, 8643600]"
  by code_simp

section \<open>Properties of the notification poller\<close>

text \<open>
  C7. Both jobs of the poller only read: whatever the database, the clock, the hour and
  the random draw, the database after a run is the database before it.
\<close>

theorem poller_is_read_only:
  "snd (checkAndNotify e d) = d \<and> snd (sendMotivationalNotification e hour random d) = d"
  by (simp add: checkAndNotify_def sendMotivationalNotification_def Let_def split: option.split)

section \<open>Properties of the fallback tips and quotes\<close>












section \<open>Properties of the heatmap\<close>








lemma count_list_pos_iff: "0 < count_list xs x \<longleftrightarrow> x \<in> set xs"
  using count_list_0_iff [of xs x] by auto



section \<open>Properties of journal creation\<close>














section \<open>Properties of the error pattern\<close>











end
